theory Spec2Isabelle
  imports Main "HOL-Library.Multiset"
begin

section \<open>Values, errors and responses\<close>

text \<open>
  A field of a JSON request body or of a query string is either absent or a string:
  \<open>None\<close> is JavaScript's \<open>undefined\<close>. The blog schema types every field as
  String, so other JSON scalars are left out of the model. \<open>truthy\<close> is the test
  that \<open>if (x)\<close> and \<open>!x\<close> perform on such a value: \<open>undefined\<close> and the empty
  string are falsy, every other string is truthy.
\<close>

type_synonym jsfield = "string option"

definition truthy :: "jsfield \<Rightarrow> bool" where
  "truthy v = (case v of None \<Rightarrow> False | Some s \<Rightarrow> s \<noteq> [])"

text \<open>
  \<open>process.env\<close>, as far as \<open>server.js\<close> reads it.
\<close>

record config =
  NODE_ENV :: jsfield
  EMAIL_USER :: jsfield
  ADMIN_EMAIL :: jsfield
  PORT :: jsfield

text \<open>
  A JavaScript error object: the handlers look at \<open>name\<close>, \<open>message\<close>,
  \<open>stack\<close> and, for a validation error, at the messages of \<open>errors\<close>
  (\<open>Object.values(error.errors).map(val => val.message)\<close>).
\<close>

record js_error =
  err_name :: string
  err_message :: string
  err_stack :: string
  err_errors :: "string list"

definition mkError :: "string \<Rightarrow> string \<Rightarrow> string list \<Rightarrow> js_error" where
  "mkError n m es =
     \<lparr>err_name = n, err_message = m, err_stack = n @ '': '' @ m, err_errors = es\<rparr>"

record blog =
  blog_id :: string
  title :: string
  description :: string
  category :: string
  imageUrl :: string
  status :: string
  createdAt :: nat
  updatedAt :: nat

text \<open>
  The JSON bodies that the handlers send, one constructor for each shape in the source,
  and the response: the HTTP status code with the body.
\<close>

datatype payload =
    BlogList nat "blog list"
  | BlogData blog
  | NullData
  | EmptyData
  | SuccessMessage string
  | Failure string
  | FailureList "string list"
  | ServerFailure string "string option"

type_synonym response = "nat \<times> payload"

fun is_success :: "payload \<Rightarrow> bool" where
  "is_success (BlogList n bs) = True"
| "is_success (BlogData b) = True"
| "is_success NullData = True"
| "is_success EmptyData = True"
| "is_success (SuccessMessage m) = True"
| "is_success (Failure m) = False"
| "is_success (FailureList ms) = False"
| "is_success (ServerFailure m st) = False"

text \<open>
  \<open>errorHandler\<close>: the status already set on the response is kept unless it is still
  the default 200, which becomes 500; the stack is hidden in production. The handler also
  writes the stack to the console; that line is recorded where the console is modelled, in
  the steps of the contact handler.
\<close>

definition errorHandler :: "config \<Rightarrow> js_error \<Rightarrow> nat \<Rightarrow> response" where
  "errorHandler env err resStatus =
     (let statusCode = (if resStatus = 200 then 500 else resStatus)
      in (statusCode,
          ServerFailure (if err_message err = [] then ''Server Error'' else err_message err)
            (if NODE_ENV env = Some ''production'' then None else Some (err_stack err))))"

section \<open>The document store\<close>

text \<open>
  The collection behind the \<open>Blog\<close> model and the driver that reaches it. The state
  holds the documents and the list of the model operations called so far, so that "the
  store is not touched" is a statement about the state.

  What the driver and the database decide is not in \<open>server.js\<close> and is a parameter
  of the store:
  \<^item> \<open>castObjectId\<close>: the cast of a request identifier to an ObjectId, \<open>None\<close> when
    the string is not in the accepted format. Documents are found by the cast value.
  \<^item> \<open>trimString\<close>: what the schema's \<open>trim\<close> setter makes of a string.
  \<^item> \<open>errorRank\<close>: the order in which the paths of a validation error are listed.
  \<^item> \<open>filterError\<close> and \<open>findMatches\<close>: whether \<open>find\<close> rejects a filter, and
    which documents satisfy it, after the casting that the store applies to its values.
  \<^item> \<open>outage\<close>: the error, if any, with which the store rejects its n-th call (a lost
    connection, a timeout).
\<close>

datatype store_call =
    CallFind
  | CallFindById string
  | CallCreate
  | CallFindByIdAndUpdate string
  | CallDeleteOne string

record blog_body =
  body_title :: jsfield
  body_description :: jsfield
  body_category :: jsfield
  body_status :: jsfield
  body_imageUrl :: jsfield

text \<open>
  A value of the parsed query string: a string, or an array or an object of values
  (\<open>?status[$ne]=draft\<close>). Arrays and objects are truthy.
\<close>

datatype qvalue =
    QString string
  | QArray "qvalue list"
  | QObject "(string \<times> qvalue) list"

type_synonym qfield = "qvalue option"


record blog_filter =
  filter_status :: qfield
  filter_category :: qfield

record driver =
  castObjectId :: "string \<Rightarrow> string option"
  trimString :: "string \<Rightarrow> string"
  errorRank :: "blog_body \<Rightarrow> string \<Rightarrow> nat"
  filterError :: "blog_filter \<Rightarrow> js_error option"
  findMatches :: "blog_filter \<Rightarrow> blog \<Rightarrow> bool"

record store =
  docs :: "blog list"
  calls :: "store_call list"
  outage :: "nat \<Rightarrow> js_error option"
  drv :: driver

definition called :: "store_call \<Rightarrow> store \<Rightarrow> store" where
  "called c st = st\<lparr>calls := calls st @ [c]\<rparr>"

text \<open>
  The answer of the store to the call that comes next.
\<close>

definition failure :: "store \<Rightarrow> js_error option" where
  "failure st = outage st (length (calls st))"

text \<open>
  The validators of \<open>BlogSchema\<close>, each giving the path with its message. A required
  trimmed string fails when it is missing or empty after trimming; \<open>title\<close> also has
  \<open>maxlength\<close> 100; \<open>status\<close> has the enumeration and no \<open>required\<close>. A path
  that is \<open>undefined\<close> only runs its \<open>required\<close> validator. Each path reports its
  first failing validator.
\<close>

definition statusEnum :: "string list" where
  "statusEnum = [''published'', ''draft'']"

definition enumMessage :: "string \<Rightarrow> string" where
  "enumMessage v = ''`'' @ v @ ''` is not a valid enum value for path `status`.''"

definition validateRequired ::
  "driver \<Rightarrow> string \<Rightarrow> string \<Rightarrow> jsfield \<Rightarrow> (string \<times> string) list" where
  "validateRequired d path msg v =
     (case v of
        None \<Rightarrow> [(path, msg)]
      | Some s \<Rightarrow> if trimString d s = [] then [(path, msg)] else [])"

definition validateTitle :: "driver \<Rightarrow> jsfield \<Rightarrow> (string \<times> string) list" where
  "validateTitle d v =
     (case v of
        None \<Rightarrow> [(''title'', ''Blog title is required'')]
      | Some s \<Rightarrow>
          if trimString d s = [] then [(''title'', ''Blog title is required'')]
          else if length (trimString d s) > 100
          then [(''title'', ''Title cannot be more than 100 characters'')]
          else [])"

definition validateStatus :: "jsfield \<Rightarrow> (string \<times> string) list" where
  "validateStatus v =
     (case v of
        None \<Rightarrow> []
      | Some s \<Rightarrow> if s \<in> set statusEnum then [] else [(''status'', enumMessage s)])"

text \<open>
  The messages of a validation error as the handlers read them,
  \<open>Object.values(error.errors).map(val => val.message)\<close>: in the order of the driver.
\<close>

definition reported :: "driver \<Rightarrow> blog_body \<Rightarrow> (string \<times> string) list \<Rightarrow> string list" where
  "reported d body errs = map snd (sort_key (\<lambda>pe. errorRank d body (fst pe)) errs)"

text \<open>
  Document validation, run by \<open>Blog.create\<close>: every path of the schema.
\<close>

definition validateDocument :: "driver \<Rightarrow> blog_body \<Rightarrow> string list" where
  "validateDocument d body =
     reported d body
       (validateTitle d (body_title body)
        @ validateRequired d ''description'' ''Blog description is required'' (body_description body)
        @ validateRequired d ''category'' ''Blog category is required'' (body_category body)
        @ validateRequired d ''imageUrl'' ''Blog image URL is required'' (body_imageUrl body)
        @ validateStatus (body_status body))"

text \<open>
  Update validation, run by \<open>findByIdAndUpdate\<close> under \<open>runValidators: true\<close>: only
  the paths that the update sets.
\<close>

definition touched ::
  "(jsfield \<Rightarrow> (string \<times> string) list) \<Rightarrow> jsfield \<Rightarrow> (string \<times> string) list" where
  "touched validator v = (case v of None \<Rightarrow> [] | Some s \<Rightarrow> validator (Some s))"

definition validateUpdate :: "driver \<Rightarrow> blog_body \<Rightarrow> string list" where
  "validateUpdate d body =
     reported d body
       (touched (validateTitle d) (body_title body)
        @ touched (validateRequired d ''description'' ''Blog description is required'')
            (body_description body)
        @ touched (validateRequired d ''category'' ''Blog category is required'')
            (body_category body)
        @ touched (validateRequired d ''imageUrl'' ''Blog image URL is required'')
            (body_imageUrl body)
        @ touched validateStatus (body_status body))"

definition castError :: "string \<Rightarrow> js_error" where
  \<open>castError ident =
     mkError ''CastError''
       (''Cast to ObjectId failed for value "'' @ ident @ ''" at path "_id" for model "Blog"'') []\<close>

definition validationError :: "string \<Rightarrow> string list \<Rightarrow> js_error" where
  "validationError m msgs = mkError ''ValidationError'' m msgs"

definition duplicateKeyError :: "string \<Rightarrow> js_error" where
  "duplicateKeyError ident =
     mkError ''MongoServerError'' (''E11000 duplicate key error: _id '' @ ident) []"

text \<open>
  The document with a given ObjectId.
\<close>

definition lookupDoc :: "string \<Rightarrow> blog list \<Rightarrow> blog option" where
  "lookupDoc oid ds = find (\<lambda>b. blog_id b = oid) ds"

text \<open>
  \<open>Blog.findById\<close>: the identifier is cast first, and a string outside the accepted
  format is a cast error; then the store answers with the document of that ObjectId or
  \<open>null\<close>, or rejects the call.
\<close>

definition Blog_findById :: "string \<Rightarrow> store \<Rightarrow> (js_error + blog option) \<times> store" where
  "Blog_findById ident st =
     (let st1 = called (CallFindById ident) st
      in case castObjectId (drv st) ident of
           None \<Rightarrow> (Inl (castError ident), st1)
         | Some oid \<Rightarrow>
             (case failure st of
                Some error \<Rightarrow> (Inl error, st1)
              | None \<Rightarrow> (Inr (lookupDoc oid (docs st)), st1)))"

text \<open>
  \<open>Blog.create\<close>: validates, then stores the trimmed fields under a new ObjectId with
  both timestamps set to the current time. \<open>status\<close> defaults to \<open>draft\<close>.
\<close>

definition trimmed :: "driver \<Rightarrow> jsfield \<Rightarrow> string" where
  "trimmed d v = (case v of None \<Rightarrow> [] | Some s \<Rightarrow> trimString d s)"

definition newDocument :: "driver \<Rightarrow> string \<Rightarrow> nat \<Rightarrow> blog_body \<Rightarrow> blog" where
  "newDocument d newId now body =
     \<lparr>blog_id = newId,
      title = trimmed d (body_title body),
      description = trimmed d (body_description body),
      category = trimmed d (body_category body),
      imageUrl = trimmed d (body_imageUrl body),
      status = (case body_status body of None \<Rightarrow> ''draft'' | Some s \<Rightarrow> s),
      createdAt = now,
      updatedAt = now\<rparr>"

definition Blog_create ::
  "string \<Rightarrow> nat \<Rightarrow> blog_body \<Rightarrow> store \<Rightarrow> (js_error + blog) \<times> store" where
  "Blog_create newId now body st =
     (let st1 = called CallCreate st
      in if validateDocument (drv st) body \<noteq> []
         then (Inl (validationError ''Blog validation failed'' (validateDocument (drv st) body)),
               st1)
         else (case failure st of
                 Some error \<Rightarrow> (Inl error, st1)
               | None \<Rightarrow>
                   if newId \<in> set (map blog_id (docs st))
                   then (Inl (duplicateKeyError newId), st1)
                   else (Inr (newDocument (drv st) newId now body),
                         st1\<lparr>docs := docs st @ [newDocument (drv st) newId now body]\<rparr>)))"

text \<open>
  \<open>Blog.findByIdAndUpdate(id, body, {new: true, runValidators: true})\<close>: casts the
  identifier, validates the paths of the update, then sets them on the document with
  that ObjectId and returns the document as it is afterwards, or \<open>null\<close>.
\<close>

definition setField :: "jsfield \<Rightarrow> string \<Rightarrow> string" where
  "setField v old = (case v of None \<Rightarrow> old | Some s \<Rightarrow> s)"

definition setTrimmed :: "driver \<Rightarrow> jsfield \<Rightarrow> string \<Rightarrow> string" where
  "setTrimmed d v old = (case v of None \<Rightarrow> old | Some s \<Rightarrow> trimString d s)"

definition applyUpdate :: "driver \<Rightarrow> nat \<Rightarrow> blog_body \<Rightarrow> blog \<Rightarrow> blog" where
  "applyUpdate d now body b =
     b\<lparr>title := setTrimmed d (body_title body) (title b),
       description := setTrimmed d (body_description body) (description b),
       category := setTrimmed d (body_category body) (category b),
       imageUrl := setTrimmed d (body_imageUrl body) (imageUrl b),
       status := setField (body_status body) (status b),
       updatedAt := now\<rparr>"

fun updateFirst :: "string \<Rightarrow> (blog \<Rightarrow> blog) \<Rightarrow> blog list \<Rightarrow> blog list" where
  "updateFirst oid f [] = []"
| "updateFirst oid f (b # bs) =
     (if blog_id b = oid then f b # bs else b # updateFirst oid f bs)"

definition Blog_findByIdAndUpdate ::
  "string \<Rightarrow> nat \<Rightarrow> blog_body \<Rightarrow> store \<Rightarrow> (js_error + blog option) \<times> store" where
  "Blog_findByIdAndUpdate ident now body st =
     (let st1 = called (CallFindByIdAndUpdate ident) st
      in case castObjectId (drv st) ident of
           None \<Rightarrow> (Inl (castError ident), st1)
         | Some oid \<Rightarrow>
             if validateUpdate (drv st) body \<noteq> []
             then (Inl (validationError ''Validation failed'' (validateUpdate (drv st) body)),
                   st1)
             else (case failure st of
                     Some error \<Rightarrow> (Inl error, st1)
                   | None \<Rightarrow>
                       (case lookupDoc oid (docs st) of
                          None \<Rightarrow> (Inr None, st1)
                        | Some b \<Rightarrow>
                            (Inr (Some (applyUpdate (drv st) now body b)),
                             st1\<lparr>docs :=
                                   updateFirst oid (applyUpdate (drv st) now body) (docs st)\<rparr>))))"

text \<open>
  \<open>blog.deleteOne()\<close> on a document that was found: removes one document with that
  ObjectId, unless the store rejects the call.
\<close>

fun removeFirst :: "string \<Rightarrow> blog list \<Rightarrow> blog list" where
  "removeFirst oid [] = []"
| "removeFirst oid (b # bs) = (if blog_id b = oid then bs else b # removeFirst oid bs)"

definition deleteOne :: "blog \<Rightarrow> store \<Rightarrow> js_error option \<times> store" where
  "deleteOne b st =
     (let st1 = called (CallDeleteOne (blog_id b)) st
      in case failure st of
           Some error \<Rightarrow> (Some error, st1)
         | None \<Rightarrow> (None, st1\<lparr>docs := removeFirst (blog_id b) (docs st)\<rparr>))"



section \<open>The blog handlers\<close>




definition invalidId :: response where
  "invalidId = (400, Failure ''Invalid blog ID format'')"

definition notFound :: response where
  "notFound = (404, Failure ''Blog not found'')"

text \<open>
  The \<open>catch\<close> block of \<open>getBlog\<close> and of \<open>deleteBlog\<close>.
\<close>

definition lookupFailed :: "config \<Rightarrow> js_error \<Rightarrow> response" where
  "lookupFailed env error =
     (if err_name error = ''CastError'' then invalidId else errorHandler env error 200)"

definition getBlog :: "config \<Rightarrow> string \<Rightarrow> store \<Rightarrow> response \<times> store" where
  "getBlog env ident st =
     (case Blog_findById ident st of
        (Inr None, st1) \<Rightarrow> (notFound, st1)
      | (Inr (Some blog), st1) \<Rightarrow> ((200, BlogData blog), st1)
      | (Inl error, st1) \<Rightarrow> (lookupFailed env error, st1))"

definition missingFields :: response where
  "missingFields =
     (400, Failure ''Please provide title, description, category, status, and imageUrl'')"

definition invalidStatus :: response where
  \<open>invalidStatus = (400, Failure ''Status must be either "published" or "draft"'')\<close>

definition createBlog ::
  "config \<Rightarrow> string \<Rightarrow> nat \<Rightarrow> blog_body \<Rightarrow> store \<Rightarrow> response \<times> store" where
  "createBlog env newId now body st =
     (if \<not> truthy (body_title body) \<or> \<not> truthy (body_description body)
         \<or> \<not> truthy (body_category body) \<or> \<not> truthy (body_status body)
         \<or> \<not> truthy (body_imageUrl body)
      then (missingFields, st)
      else if body_status body \<noteq> Some ''published'' \<and> body_status body \<noteq> Some ''draft''
      then (invalidStatus, st)
      else (case Blog_create newId now body st of
              (Inr blog, st1) \<Rightarrow> ((201, BlogData blog), st1)
            | (Inl error, st1) \<Rightarrow>
                if err_name error = ''ValidationError''
                then ((400, FailureList (err_errors error)), st1)
                else (errorHandler env error 200, st1)))"

text \<open>
  The \<open>catch\<close> block of \<open>updateBlog\<close>.
\<close>

definition updateFailed :: "config \<Rightarrow> js_error \<Rightarrow> response" where
  "updateFailed env error =
     (if err_name error = ''CastError'' then invalidId
      else if err_name error = ''ValidationError'' then (400, FailureList (err_errors error))
      else errorHandler env error 200)"

definition updateBlog ::
  "config \<Rightarrow> string \<Rightarrow> nat \<Rightarrow> blog_body \<Rightarrow> store \<Rightarrow> response \<times> store" where
  "updateBlog env ident now body st =
     (case Blog_findById ident st of
        (Inl error, st1) \<Rightarrow> (updateFailed env error, st1)
      | (Inr None, st1) \<Rightarrow> (notFound, st1)
      | (Inr (Some found), st1) \<Rightarrow>
          (case Blog_findByIdAndUpdate ident now body st1 of
             (Inl error, st2) \<Rightarrow> (updateFailed env error, st2)
           | (Inr blog, st2) \<Rightarrow>
               ((200, (case blog of None \<Rightarrow> NullData | Some b \<Rightarrow> BlogData b)), st2)))"

definition deleteBlog :: "config \<Rightarrow> string \<Rightarrow> store \<Rightarrow> response \<times> store" where
  "deleteBlog env ident st =
     (case Blog_findById ident st of
        (Inl error, st1) \<Rightarrow> (lookupFailed env error, st1)
      | (Inr None, st1) \<Rightarrow> (notFound, st1)
      | (Inr (Some blog), st1) \<Rightarrow>
          (case deleteOne blog st1 of
             (Some error, st2) \<Rightarrow> (lookupFailed env error, st2)
           | (None, st2) \<Rightarrow> ((200, EmptyData), st2)))"

section \<open>The contact handler\<close>

text \<open>
  What \<open>submitContactForm\<close> does to the mail client and the console, in order:
  creating a transporter, sending a message (with the error of a rejected send), and
  writing a line. The relay is a parameter: it answers each message with \<open>None\<close>
  when the send resolves and with the error when it rejects. What the mail client does
  inside a send is not part of the model.
  Of a message, the sender, the recipient, the subject and the plain-text alternative
  are modelled; the two HTML bodies are left out.
\<close>

record mail =
  mail_from_name :: string
  mail_from_address :: jsfield
  mail_to :: jsfield
  mail_subject :: string
  mail_text :: string

datatype mail_event =
    CreateTransport
  | SendMail mail "js_error option"
  | ConsoleLog string
  | ConsoleError string

record contact_body =
  contact_name :: jsfield
  contact_email :: jsfield
  contact_phone :: jsfield
  contact_message :: jsfield

text \<open>
  A template literal writes \<open>undefined\<close> for a missing value.
\<close>

definition interpolate :: "jsfield \<Rightarrow> string" where
  "interpolate v = (case v of None \<Rightarrow> ''undefined'' | Some s \<Rightarrow> s)"

definition userMailOptions :: "config \<Rightarrow> contact_body \<Rightarrow> mail" where
  "userMailOptions env body =
     \<lparr>mail_from_name = ''ImpexInfo Support'',
      mail_from_address = EMAIL_USER env,
      mail_to = contact_email body,
      mail_subject = ''Thank you for contacting ImpexInfo'',
      mail_text = ''Dear '' @ interpolate (contact_name body)
        @ '', Thank you for contacting Impex Info. We have received your message and will get back to you shortly.''\<rparr>"

definition adminMailOptions :: "config \<Rightarrow> contact_body \<Rightarrow> mail" where
  "adminMailOptions env body =
     \<lparr>mail_from_name = ''Contact Form'',
      mail_from_address = EMAIL_USER env,
      mail_to = ADMIN_EMAIL env,
      mail_subject = ''New Contact Form Submission from '' @ interpolate (contact_name body),
      mail_text = ''New contact from '' @ interpolate (contact_name body) @ '' (''
        @ interpolate (contact_email body) @ ''): '' @ interpolate (contact_message body)\<rparr>"

definition userSendFailedLine :: string where
  "userSendFailedLine = ''Error sending user confirmation email:''"

definition submitContactForm ::
  "config \<Rightarrow> (mail \<Rightarrow> js_error option) \<Rightarrow> contact_body \<Rightarrow> response \<times> mail_event list" where
  "submitContactForm env relay body =
     (if \<not> truthy (contact_name body) \<or> \<not> truthy (contact_email body)
         \<or> \<not> truthy (contact_message body)
      then ((400, Failure ''Please provide name, email and message''), [])
      else
        let userMail = userMailOptions env body;
            adminMail = adminMailOptions env body;
            userSend =
              (case relay userMail of
                 None \<Rightarrow>
                   [SendMail userMail None,
                    ConsoleLog ''User confirmation email sent successfully'']
               | Some userEmailError \<Rightarrow>
                   [SendMail userMail (Some userEmailError), ConsoleError userSendFailedLine])
        in case relay adminMail of
             None \<Rightarrow>
               ((200, SuccessMessage ''Your message has been sent successfully!''),
                CreateTransport # userSend
                @ [SendMail adminMail None,
                   ConsoleLog ''Admin notification email sent successfully''])
           | Some adminEmailError \<Rightarrow>
               (errorHandler env adminEmailError 200,
                CreateTransport # userSend
                @ [SendMail adminMail (Some adminEmailError),
                   ConsoleError ''Error sending admin notification email:'',
                   ConsoleError ''Email sending error:'',
                   ConsoleError (err_stack adminEmailError)]))"

section \<open>Startup\<close>

text \<open>
  The startup sequence and what it leaves behind: the two status flags and the list of
  steps taken. The environment gives the outcome of the mail check, the outcomes of the
  successive connection attempts (as far as they are known: an attempt without an outcome
  never settles), and the outcome of a bind on each port. \<open>port0\<close> is the value of
  \<open>parseInt(PORT) || 8000\<close>.
\<close>

datatype bind_result = BindOk | EADDRINUSE | BindError string

datatype startup_event =
    VerifyEmail bool
  | ConnectAttempt bool
  | RetryScheduled nat
  | StartDelayed
  | Listen int bind_result
  | ProcessExit nat

record server_state =
  emailServerStatus :: bool
  dbStatus :: bool
  events :: "startup_event list"

definition initialState :: server_state where
  "initialState = \<lparr>emailServerStatus = False, dbStatus = False, events = []\<rparr>"

definition verifyEmailServer :: "bool \<Rightarrow> server_state \<Rightarrow> bool \<times> server_state" where
  "verifyEmailServer ok s =
     (ok, s\<lparr>emailServerStatus := ok, events := events s @ [VerifyEmail ok]\<rparr>)"

text \<open>
  \<open>ConnectDB\<close>: on failure the flag is cleared and \<open>setTimeout(ConnectDB, 5000)\<close>
  schedules the next attempt.
\<close>

definition ConnectDB :: "bool \<Rightarrow> server_state \<Rightarrow> bool \<times> server_state" where
  "ConnectDB ok s =
     (if ok then (True, s\<lparr>dbStatus := True, events := events s @ [ConnectAttempt True]\<rparr>)
      else (False,
            s\<lparr>dbStatus := False,
              events := events s @ [ConnectAttempt False, RetryScheduled 5000]\<rparr>))"

text \<open>
  The timer callbacks: each scheduled \<open>ConnectDB\<close> runs with the next outcome, and its
  return value goes to nobody.
\<close>

fun retryConnect :: "bool list \<Rightarrow> server_state \<Rightarrow> server_state" where
  "retryConnect [] s = s"
| "retryConnect (ok # rest) s =
     (case ConnectDB ok s of
        (True, s1) \<Rightarrow> s1
      | (False, s1) \<Rightarrow> retryConnect rest s1)"

text \<open>
  \<open>tryPort\<close>: the steps of the port probe, ending when a bind succeeds or the process
  exits.
\<close>

function tryPort :: "(int \<Rightarrow> bind_result) \<Rightarrow> int \<Rightarrow> startup_event list" where
  "tryPort bind port =
     (case bind port of
        BindOk \<Rightarrow> [Listen port BindOk]
      | EADDRINUSE \<Rightarrow>
          Listen port EADDRINUSE
          # (if port < 65535 then tryPort bind (port + 1) else [ProcessExit 1])
      | BindError code \<Rightarrow> [Listen port (BindError code), ProcessExit 1])"
  by pat_completeness auto
termination
  by (relation "measure (\<lambda>(bind, port). nat (65535 - port))") auto

definition startServer ::
  "bool \<Rightarrow> bool list \<Rightarrow> (int \<Rightarrow> bind_result) \<Rightarrow> int \<Rightarrow> server_state" where
  "startServer verifyOk connects bind port0 =
     (let (verified, s1) = verifyEmailServer verifyOk initialState
      in case connects of
           [] \<Rightarrow> s1
         | ok # rest \<Rightarrow>
             let (isConnected, s2) = ConnectDB ok s1
             in if isConnected then s2\<lparr>events := events s2 @ tryPort bind port0\<rparr>
                else retryConnect rest (s2\<lparr>events := events s2 @ [StartDelayed]\<rparr>))"

section \<open>Notions used in the statements\<close>

text \<open>
  The presence check of \<open>createBlog\<close> as one predicate.
\<close>

definition allTruthy :: "blog_body \<Rightarrow> bool" where
  "allTruthy body = (truthy (body_title body) \<and> truthy (body_description body)
     \<and> truthy (body_category body) \<and> truthy (body_status body) \<and> truthy (body_imageUrl body))"


text \<open>
  The steps of the first of the two sends of \<open>submitContactForm\<close>.
\<close>

definition userSendSteps :: "config \<Rightarrow> (mail \<Rightarrow> js_error option) \<Rightarrow> contact_body \<Rightarrow> mail_event list" where
  "userSendSteps env relay body =
     (case relay (userMailOptions env body) of
        None \<Rightarrow> [SendMail (userMailOptions env body) None,
                  ConsoleLog ''User confirmation email sent successfully'']
      | Some e \<Rightarrow> [SendMail (userMailOptions env body) (Some e), ConsoleError userSendFailedLine])"

section \<open>Concrete inputs\<close>

text \<open>
  A driver for the instances below. It casts a string of 24 hexadecimal digits to its
  lower-case spelling and no other string, trims the white space of Latin-1, lists
  validation messages in the order of the schema, and decides a string condition by
  equality with the value that the schema's cast gives (trimmed for \<open>category\<close>); it
  rejects every condition that is not a string. The statements of the next sections are
  about every driver; this one serves their instances, which use string conditions only.
  With it come an environment, stores that hold nothing or one draft and answer every
  call, a store that rejects every call, request bodies, relays and bind outcomes.
\<close>

definition lowerHex :: "char \<Rightarrow> char" where
  "lowerHex c =
     (if c = CHR ''A'' then CHR ''a'' else if c = CHR ''B'' then CHR ''b''
      else if c = CHR ''C'' then CHR ''c'' else if c = CHR ''D'' then CHR ''d''
      else if c = CHR ''E'' then CHR ''e'' else if c = CHR ''F'' then CHR ''f'' else c)"

definition sampleCast :: "string \<Rightarrow> string option" where
  "sampleCast s =
     (if length s = 24 \<and> list_all (\<lambda>c. c \<in> set ''0123456789abcdefABCDEF'') s
      then Some (map lowerHex s) else None)"

definition is_space :: "char \<Rightarrow> bool" where
  "is_space c =
     (c \<in> {CHR '' '', CHR 0x09, CHR 0x0A, CHR 0x0B, CHR 0x0C, CHR 0x0D, CHR 0xA0})"

definition sampleTrim :: "string \<Rightarrow> string" where
  "sampleTrim s = rev (dropWhile is_space (rev (dropWhile is_space s)))"

fun stringCondition :: "(string \<Rightarrow> string) \<Rightarrow> qfield \<Rightarrow> string \<Rightarrow> bool" where
  "stringCondition cast None v = True"
| "stringCondition cast (Some (QString s)) v = (v = cast s)"
| "stringCondition cast (Some (QArray vs)) v = False"
| "stringCondition cast (Some (QObject kvs)) v = False"

definition sampleMatch :: "blog_filter \<Rightarrow> blog \<Rightarrow> bool" where
  "sampleMatch f b =
     (stringCondition (\<lambda>s. s) (filter_status f) (status b)
      \<and> stringCondition sampleTrim (filter_category f) (category b))"

fun isStringCondition :: "qfield \<Rightarrow> bool" where
  "isStringCondition None = True"
| "isStringCondition (Some (QString s)) = True"
| "isStringCondition (Some (QArray vs)) = False"
| "isStringCondition (Some (QObject kvs)) = False"

definition sampleFilterError :: "blog_filter \<Rightarrow> js_error option" where
  "sampleFilterError f =
     (if isStringCondition (filter_status f) \<and> isStringCondition (filter_category f) then None
      else Some (mkError ''CastError'' ''Cast to string failed'' []))"

definition sampleDriver :: driver where
  "sampleDriver =
     \<lparr>castObjectId = sampleCast, trimString = sampleTrim, errorRank = (\<lambda>body path. 0),
      filterError = sampleFilterError, findMatches = sampleMatch\<rparr>"

definition sampleEnv :: config where
  "sampleEnv =
     \<lparr>NODE_ENV = None, EMAIL_USER = Some ''support@impexinfo.com'',
      ADMIN_EMAIL = Some ''admin@impexinfo.com'', PORT = None\<rparr>"

definition sampleId :: string where
  "sampleId = ''65a1b2c3d4e5f60718293a4b''"

definition upperId :: string where
  "upperId = ''65A1B2C3D4E5F60718293A4B''"

definition otherId :: string where
  "otherId = ''65a1b2c3d4e5f60718293a4c''"

definition sampleBody :: blog_body where
  "sampleBody =
     \<lparr>body_title = Some ''A'', body_description = Some ''B'', body_category = Some ''C'',
      body_status = Some ''draft'', body_imageUrl = Some ''http://x/1.png''\<rparr>"

definition sampleBlog :: blog where
  "sampleBlog =
     \<lparr>blog_id = ''65a1b2c3d4e5f60718293a4b'', title = ''A'', description = ''B'',
      category = ''C'', imageUrl = ''http://x/1.png'', status = ''draft'',
      createdAt = 5, updatedAt = 5\<rparr>"

definition emptyStore :: store where
  "emptyStore = \<lparr>docs = [], calls = [], outage = (\<lambda>n. None), drv = sampleDriver\<rparr>"

definition sampleStore :: store where
  "sampleStore = \<lparr>docs = [sampleBlog], calls = [], outage = (\<lambda>n. None), drv = sampleDriver\<rparr>"



definition statusOnly :: "string \<Rightarrow> blog_body" where
  "statusOnly s =
     \<lparr>body_title = None, body_description = None, body_category = None,
      body_status = Some s, body_imageUrl = None\<rparr>"

definition sampleContact :: contact_body where
  "sampleContact =
     \<lparr>contact_name = Some ''Asha'', contact_email = Some ''asha@example.org'',
      contact_phone = None, contact_message = Some ''Hello''\<rparr>"

definition relayDown :: js_error where
  "relayDown = mkError ''Error'' ''connect ECONNREFUSED'' []"

definition rejectTo :: "jsfield \<Rightarrow> mail \<Rightarrow> js_error option" where
  "rejectTo addr m = (if mail_to m = addr then Some relayDown else None)"

definition portsBusyBelow :: "int \<Rightarrow> int \<Rightarrow> bind_result" where
  "portsBusyBelow free port = (if port < free then EADDRINUSE else BindOk)"

section \<open>Facts about the store and the handlers\<close>

declare tryPort.simps [simp del]

lemma responses_distinct:
  "missingFields \<noteq> invalidStatus" "invalidId \<noteq> notFound"
  by (simp_all add: missingFields_def invalidStatus_def invalidId_def notFound_def)

lemma castError_name: "err_name (castError ident) = ''CastError''"
  by (simp add: castError_def mkError_def)

lemma validationError_name: "err_name (validationError m ms) = ''ValidationError''"
  "err_errors (validationError m ms) = ms"
  by (simp_all add: validationError_def mkError_def)

lemma called_fields [simp]:
  "docs (called c st) = docs st" "outage (called c st) = outage st" "drv (called c st) = drv st"
  "calls (called c st) = calls st @ [c]"
  by (simp_all add: called_def)

lemma failure_called: "failure (called c st) = outage st (Suc (length (calls st)))"
  by (simp add: failure_def)

lemma errorHandler_default: "fst (errorHandler env err 200) = 500"
  "\<not> is_success (snd (errorHandler env err 200))"
  by (simp_all add: errorHandler_def)

lemma lookupFailed_not_success: "\<not> is_success (snd (lookupFailed env error))"
  by (simp add: lookupFailed_def invalidId_def errorHandler_default)

lemma lookupFailed_not_404: "fst (lookupFailed env error) \<noteq> 404"
  by (simp add: lookupFailed_def invalidId_def errorHandler_default)

lemma updateFailed_not_404: "fst (updateFailed env error) \<noteq> 404"
  by (simp add: updateFailed_def invalidId_def errorHandler_default)

lemma findById_malformed:
  "castObjectId (drv st) ident = None \<Longrightarrow>
   Blog_findById ident st = (Inl (castError ident), called (CallFindById ident) st)"
  by (simp add: Blog_findById_def)

lemma findById_answered:
  "castObjectId (drv st) ident = Some oid \<Longrightarrow> failure st = None \<Longrightarrow>
   Blog_findById ident st = (Inr (lookupDoc oid (docs st)), called (CallFindById ident) st)"
  by (simp add: Blog_findById_def)

lemma findById_rejected:
  "castObjectId (drv st) ident = Some oid \<Longrightarrow> failure st = Some e \<Longrightarrow>
   Blog_findById ident st = (Inl e, called (CallFindById ident) st)"
  by (simp add: Blog_findById_def)

lemma findById_cases:
  "(castObjectId (drv st) ident = None
      \<and> Blog_findById ident st = (Inl (castError ident), called (CallFindById ident) st))
   \<or> (\<exists>oid e. castObjectId (drv st) ident = Some oid \<and> failure st = Some e
        \<and> Blog_findById ident st = (Inl e, called (CallFindById ident) st))
   \<or> (\<exists>oid. castObjectId (drv st) ident = Some oid \<and> failure st = None
        \<and> Blog_findById ident st = (Inr (lookupDoc oid (docs st)), called (CallFindById ident) st))"
  by (cases "castObjectId (drv st) ident"; cases "failure st") (simp_all add: Blog_findById_def)

lemma lookupDoc_None_iff: "lookupDoc oid ds = None \<longleftrightarrow> oid \<notin> set (map blog_id ds)"
  by (auto simp: lookupDoc_def find_None_iff)

lemma lookupDoc_id: "lookupDoc oid ds = Some b \<Longrightarrow> blog_id b = oid"
  by (induction ds) (auto simp: lookupDoc_def split: if_splits)

lemma lookupDoc_removeFirst:
  "distinct (map blog_id ds) \<Longrightarrow> lookupDoc oid (removeFirst oid ds) = None"
proof (induction ds)
  case Nil
  then show ?case by (simp add: lookupDoc_def)
next
  case (Cons d ds)
  show ?case
  proof (cases "blog_id d = oid")
    case True
    with Cons.prems show ?thesis by (simp add: lookupDoc_None_iff)
  next
    case False
    with Cons show ?thesis by (simp add: lookupDoc_def)
  qed
qed

lemma map_id_updateFirst:
  "map blog_id (updateFirst oid (applyUpdate d now body) ds) = map blog_id ds"
  by (induction ds) (auto simp: applyUpdate_def)

lemma set_removeFirst: "set (map blog_id (removeFirst oid ds)) \<subseteq> set (map blog_id ds)"
  by (induction ds) auto

lemma distinct_removeFirst:
  "distinct (map blog_id ds) \<Longrightarrow> distinct (map blog_id (removeFirst oid ds))"
proof (induction ds)
  case Nil
  then show ?case by simp
next
  case (Cons d ds)
  then show ?case using set_removeFirst[of oid ds] by auto
qed

lemma getBlog_malformed:
  "castObjectId (drv st) ident = None \<Longrightarrow> fst (getBlog env ident st) = invalidId"
  by (simp add: getBlog_def findById_malformed lookupFailed_def castError_name)

lemma updateBlog_malformed:
  "castObjectId (drv st) ident = None \<Longrightarrow> fst (updateBlog env ident now body st) = invalidId"
  by (simp add: updateBlog_def findById_malformed updateFailed_def castError_name)

lemma deleteBlog_malformed:
  "castObjectId (drv st) ident = None \<Longrightarrow> fst (deleteBlog env ident st) = invalidId"
  by (simp add: deleteBlog_def findById_malformed lookupFailed_def castError_name)

lemma getBlog_rejected:
  "castObjectId (drv st) ident = Some oid \<Longrightarrow> failure st = Some e \<Longrightarrow>
   getBlog env ident st = (lookupFailed env e, called (CallFindById ident) st)"
  by (simp add: getBlog_def findById_rejected)

lemma getBlog_answered:
  "castObjectId (drv st) ident = Some oid \<Longrightarrow> failure st = None \<Longrightarrow>
   getBlog env ident st =
     ((case lookupDoc oid (docs st) of None \<Rightarrow> notFound | Some b \<Rightarrow> (200, BlogData b)),
      called (CallFindById ident) st)"
  by (simp add: getBlog_def findById_answered split: option.splits)

lemma deleteBlog_rejected:
  "castObjectId (drv st) ident = Some oid \<Longrightarrow> failure st = Some e \<Longrightarrow>
   deleteBlog env ident st = (lookupFailed env e, called (CallFindById ident) st)"
  by (simp add: deleteBlog_def findById_rejected)

lemma deleteBlog_absent:
  "castObjectId (drv st) ident = Some oid \<Longrightarrow> failure st = None \<Longrightarrow>
   lookupDoc oid (docs st) = None \<Longrightarrow>
   deleteBlog env ident st = (notFound, called (CallFindById ident) st)"
  by (simp add: deleteBlog_def findById_answered)

lemma deleteBlog_present:
  "castObjectId (drv st) ident = Some oid \<Longrightarrow> failure st = None \<Longrightarrow>
   lookupDoc oid (docs st) = Some b \<Longrightarrow>
   deleteBlog env ident st =
     (case outage st (Suc (length (calls st))) of
        Some e \<Rightarrow> (lookupFailed env e,
                   called (CallDeleteOne oid) (called (CallFindById ident) st))
      | None \<Rightarrow> ((200, EmptyData),
                  (called (CallDeleteOne oid) (called (CallFindById ident) st))
                    \<lparr>docs := removeFirst oid (docs st)\<rparr>))"
  using lookupDoc_id[of oid "docs st" b]
  by (simp add: deleteBlog_def findById_answered deleteOne_def failure_called Let_def
        split: option.splits)

lemma updateBlog_rejected:
  "castObjectId (drv st) ident = Some oid \<Longrightarrow> failure st = Some e \<Longrightarrow>
   updateBlog env ident now body st = (updateFailed env e, called (CallFindById ident) st)"
  by (simp add: updateBlog_def findById_rejected)

lemma updateBlog_absent:
  "castObjectId (drv st) ident = Some oid \<Longrightarrow> failure st = None \<Longrightarrow>
   lookupDoc oid (docs st) = None \<Longrightarrow>
   updateBlog env ident now body st = (notFound, called (CallFindById ident) st)"
  by (simp add: updateBlog_def findById_answered)

lemma updateBlog_present:
  "castObjectId (drv st) ident = Some oid \<Longrightarrow> failure st = None \<Longrightarrow>
   lookupDoc oid (docs st) = Some b \<Longrightarrow>
   updateBlog env ident now body st =
     (if validateUpdate (drv st) body \<noteq> []
      then ((400, FailureList (validateUpdate (drv st) body)),
            called (CallFindByIdAndUpdate ident) (called (CallFindById ident) st))
      else case outage st (Suc (length (calls st))) of
             Some e \<Rightarrow> (updateFailed env e,
                        called (CallFindByIdAndUpdate ident) (called (CallFindById ident) st))
           | None \<Rightarrow>
               ((200, BlogData (applyUpdate (drv st) now body b)),
                (called (CallFindByIdAndUpdate ident) (called (CallFindById ident) st))
                  \<lparr>docs := updateFirst oid (applyUpdate (drv st) now body) (docs st)\<rparr>))"
  by (simp add: updateBlog_def findById_answered Blog_findByIdAndUpdate_def Let_def
        failure_called updateFailed_def validationError_name split: option.splits)

lemma updateBlog_present_status:
  assumes "castObjectId (drv st) ident = Some oid" and "failure st = None"
    and "lookupDoc oid (docs st) = Some b"
  shows "fst (fst (updateBlog env ident now body st)) \<noteq> 404"
proof (cases "outage st (Suc (length (calls st)))")
  case None
  with assms show ?thesis by (simp add: updateBlog_present)
next
  case (Some e)
  with assms show ?thesis by (simp add: updateBlog_present updateFailed_not_404)
qed

text \<open>
  The identifiers of the stored documents stay pairwise distinct under every handler.
\<close>

lemma distinct_ids_createBlog:
  "distinct (map blog_id (docs st)) \<Longrightarrow>
   distinct (map blog_id (docs (snd (createBlog env newId now body st))))"
  by (auto simp: createBlog_def Blog_create_def Let_def newDocument_def
       split: if_splits option.splits)

lemma distinct_ids_updateBlog:
  "distinct (map blog_id (docs st)) \<Longrightarrow>
   distinct (map blog_id (docs (snd (updateBlog env ident now body st))))"
  by (auto simp: updateBlog_def Blog_findById_def Blog_findByIdAndUpdate_def Let_def
       map_id_updateFirst split: if_splits option.splits)

lemma distinct_ids_deleteBlog:
  "distinct (map blog_id (docs st)) \<Longrightarrow>
   distinct (map blog_id (docs (snd (deleteBlog env ident st))))"
  by (auto simp: deleteBlog_def Blog_findById_def deleteOne_def Let_def distinct_removeFirst
       split: if_splits option.splits)

subsection \<open>Create\<close>

lemma createBlog_missing:
  "\<not> allTruthy body \<Longrightarrow> createBlog env newId now body st = (missingFields, st)"
  by (auto simp: createBlog_def allTruthy_def)

lemma createBlog_invalid:
  "allTruthy body \<Longrightarrow> body_status body \<noteq> Some ''published'' \<Longrightarrow> body_status body \<noteq> Some ''draft''
   \<Longrightarrow> createBlog env newId now body st = (invalidStatus, st)"
  by (auto simp: createBlog_def allTruthy_def)

lemma createBlog_reaches_store:
  assumes "allTruthy body" "body_status body = Some ''published'' \<or> body_status body = Some ''draft''"
  shows "calls (snd (createBlog env newId now body st)) = calls st @ [CallCreate]"
    and "fst (fst (createBlog env newId now body st)) \<noteq> 400
         \<or> (\<exists>ms. snd (fst (createBlog env newId now body st)) = FailureList ms)"
  using assms
  by (auto simp: createBlog_def allTruthy_def Blog_create_def Let_def errorHandler_def
           split: prod.splits sum.splits option.splits)

lemma createBlog_invalidStatus_only:
  assumes "fst (createBlog env newId now body st) = invalidStatus"
  shows "allTruthy body \<and> body_status body \<noteq> Some ''published'' \<and> body_status body \<noteq> Some ''draft''"
proof (cases "allTruthy body")
  case False
  with assms responses_distinct(1) show ?thesis by (simp add: createBlog_missing)
next
  case True
  show ?thesis
  proof (cases "body_status body = Some ''published'' \<or> body_status body = Some ''draft''")
    case False
    with True show ?thesis by simp
  next
    case ok: True
    from createBlog_reaches_store(2)[OF True ok, of env newId now st] assms
    show ?thesis by (auto simp: invalidStatus_def)
  qed
qed

lemma falsy_iff: "\<not> truthy v \<longleftrightarrow> v = None \<or> v = Some []"
  by (simp add: truthy_def split: option.splits)

subsection \<open>Update validation\<close>

lemma validateStatus_bad:
  "s \<noteq> ''published'' \<Longrightarrow> s \<noteq> ''draft'' \<Longrightarrow> validateStatus (Some s) = [(''status'', enumMessage s)]"
  by (simp add: validateStatus_def statusEnum_def)

lemma set_reported: "set (reported d body errs) = snd ` set errs"
  by (simp add: reported_def)

lemma enum_message_reported:
  "body_status body = Some s \<Longrightarrow> s \<noteq> ''published'' \<Longrightarrow> s \<noteq> ''draft'' \<Longrightarrow>
   enumMessage s \<in> set (validateUpdate d body)"
  by (simp add: validateUpdate_def set_reported touched_def validateStatus_bad image_Un)

subsection \<open>List\<close>








lemma deleteBlog_keeps_environment:
  "outage (snd (deleteBlog env ident st)) = outage st \<and> drv (snd (deleteBlog env ident st)) = drv st"
  by (simp add: deleteBlog_def Blog_findById_def deleteOne_def Let_def split: option.splits)

subsection \<open>The concrete store\<close>

lemma sample_casts:
  "castObjectId (drv sampleStore) ''not-an-id'' = None"
  "castObjectId (drv sampleStore) otherId = Some otherId"
  "castObjectId (drv sampleStore) sampleId = Some sampleId"
  "castObjectId (drv sampleStore) upperId = Some sampleId"
  by (simp_all add: sampleStore_def sampleDriver_def sampleCast_def lowerHex_def otherId_def
        sampleId_def upperId_def)

lemma sample_lookups:
  "lookupDoc otherId (docs sampleStore) = None"
  "lookupDoc sampleId (docs sampleStore) = Some sampleBlog"
  by (simp_all add: lookupDoc_def sampleStore_def sampleBlog_def otherId_def sampleId_def)

lemma sample_answers: "failure sampleStore = None" "outage sampleStore n = None"
  by (simp_all add: failure_def sampleStore_def)



subsection \<open>Contact\<close>

lemma mails_differ: "userMailOptions env body \<noteq> adminMailOptions env body"
  by (simp add: userMailOptions_def adminMailOptions_def)

lemma submit_rejected:
  "\<not> (truthy (contact_name body) \<and> truthy (contact_email body) \<and> truthy (contact_message body))
   \<Longrightarrow> submitContactForm env relay body = ((400, Failure ''Please provide name, email and message''), [])"
  by (auto simp: submitContactForm_def)

lemma submit_admin_ok:
  "truthy (contact_name body) \<Longrightarrow> truthy (contact_email body) \<Longrightarrow> truthy (contact_message body)
   \<Longrightarrow> relay (adminMailOptions env body) = None
   \<Longrightarrow> submitContactForm env relay body =
       ((200, SuccessMessage ''Your message has been sent successfully!''),
        CreateTransport # userSendSteps env relay body
        @ [SendMail (adminMailOptions env body) None,
           ConsoleLog ''Admin notification email sent successfully''])"
  by (simp add: submitContactForm_def userSendSteps_def Let_def)

lemma submit_admin_failed:
  "truthy (contact_name body) \<Longrightarrow> truthy (contact_email body) \<Longrightarrow> truthy (contact_message body)
   \<Longrightarrow> relay (adminMailOptions env body) = Some e
   \<Longrightarrow> submitContactForm env relay body =
       (errorHandler env e 200,
        CreateTransport # userSendSteps env relay body
        @ [SendMail (adminMailOptions env body) (Some e),
           ConsoleError ''Error sending admin notification email:'',
           ConsoleError ''Email sending error:'',
           ConsoleError (err_stack e)])"
  by (simp add: submitContactForm_def userSendSteps_def Let_def)

lemma userSendSteps_set:
  "set (userSendSteps env relay body) =
     (case relay (userMailOptions env body) of
        None \<Rightarrow> {SendMail (userMailOptions env body) None,
                  ConsoleLog ''User confirmation email sent successfully''}
      | Some e \<Rightarrow> {SendMail (userMailOptions env body) (Some e), ConsoleError userSendFailedLine})"
  by (simp add: userSendSteps_def split: option.splits)

lemma admin_not_in_userSendSteps:
  "SendMail (adminMailOptions env body) r \<notin> set (userSendSteps env relay body)"
  using mails_differ[of env body] by (auto simp: userSendSteps_set split: option.splits)

subsection \<open>Startup\<close>

lemma tryPort_nonempty: "tryPort bind port \<noteq> []"
  by (subst tryPort.simps) (simp split: bind_result.splits)

lemma tryPort_head: "\<exists>rest. tryPort bind port = Listen port (bind port) # rest"
  by (subst tryPort.simps) (simp split: bind_result.splits)

lemma tryPort_suffix:
  "tryPort bind port = pre @ Listen p r # rest \<Longrightarrow>
     r = bind p \<and> p = port + int (length pre) \<and> tryPort bind p = Listen p r # rest"
proof (induction bind port arbitrary: pre rule: tryPort.induct)
  case (1 bind port)
  show ?case
  proof (cases pre)
    case Nil
    with "1.prems" tryPort_head[of bind port] show ?thesis by auto
  next
    case (Cons x pre')
    with "1.prems" have unfolded: "tryPort bind port = x # pre' @ Listen p r # rest" by simp
    show ?thesis
    proof (cases "bind port")
      case BindOk
      with unfolded show ?thesis by (subst (asm) tryPort.simps) simp
    next
      case (BindError code)
      with unfolded show ?thesis
        by (subst (asm) tryPort.simps) (auto simp: Cons_eq_append_conv)
    next
      case EADDRINUSE
      show ?thesis
      proof (cases "port < 65535")
        case False
        with EADDRINUSE unfolded show ?thesis
          by (subst (asm) tryPort.simps) (auto simp: Cons_eq_append_conv)
      next
        case True
        with EADDRINUSE unfolded have "tryPort bind (port + 1) = pre' @ Listen p r # rest"
          by (subst (asm) tryPort.simps) simp
        from "1.IH"[OF EADDRINUSE True this]
        have ih: "r = bind p" "p = port + 1 + int (length pre')" "tryPort bind p = Listen p r # rest"
          by blast+
        from ih(2) Cons have "p = port + int (length pre)" by simp
        with ih(1) ih(3) show ?thesis by blast
      qed
    qed
  qed
qed

lemma retryConnect_no_listen:
  "(\<forall>port r. Listen port r \<notin> set (events s)) \<Longrightarrow>
   (\<forall>port r. Listen port r \<notin> set (events (retryConnect connects s)))"
  by (induction connects arbitrary: s) (auto simp: ConnectDB_def)

text \<open>
  A bind is attempted exactly when the first connection attempt succeeds: never before
  a successful connect, and never after a failed first attempt either.
\<close>

lemma startServer_binds_iff_first_connect:
  "(\<exists>port r. Listen port r \<in> set (events (startServer verifyOk connects bind port0)))
     \<longleftrightarrow> (\<exists>rest. connects = True # rest)"
proof (cases connects)
  case Nil
  then show ?thesis by (simp add: startServer_def verifyEmailServer_def initialState_def)
next
  case (Cons ok rest)
  show ?thesis
  proof (cases ok)
    case True
    obtain tl where "tryPort bind port0 = Listen port0 (bind port0) # tl"
      using tryPort_head by blast
    with Cons True show ?thesis
      by (auto simp: startServer_def verifyEmailServer_def initialState_def ConnectDB_def)
  next
    case False
    have "\<forall>port r. Listen port r \<notin> set (events (retryConnect rest
        \<lparr>emailServerStatus = verifyOk, dbStatus = False,
           events = [VerifyEmail verifyOk, ConnectAttempt False, RetryScheduled 5000, StartDelayed]\<rparr>))"
      by (rule retryConnect_no_listen) simp
    with Cons False show ?thesis
      by (simp add: startServer_def verifyEmailServer_def initialState_def ConnectDB_def)
  qed
qed

section \<open>The claims\<close>

text \<open>
  Claim C1. The response to a contact submission is a success envelope exactly when the
  admin-notification send has succeeded. Whenever name, email and message pass the
  handler's check, both sends are attempted whatever the relay answers to the first: the
  response is a success exactly when the relay accepts the admin notification, a rejected
  user confirmation is logged and the admin send still follows, and a rejected admin
  notification is answered by \<open>errorHandler\<close> with status 500.
\<close>

theorem contact_success_iff_admin_send_succeeds:
  "(is_success (snd (fst (submitContactForm env relay body)))
      \<longleftrightarrow> SendMail (adminMailOptions env body) None \<in> set (snd (submitContactForm env relay body)))
   \<and> (truthy (contact_name body) \<and> truthy (contact_email body) \<and> truthy (contact_message body) \<longrightarrow>
        SendMail (userMailOptions env body) (relay (userMailOptions env body))
          \<in> set (snd (submitContactForm env relay body))
      \<and> SendMail (adminMailOptions env body) (relay (adminMailOptions env body))
          \<in> set (snd (submitContactForm env relay body))
      \<and> (is_success (snd (fst (submitContactForm env relay body)))
          \<longleftrightarrow> relay (adminMailOptions env body) = None)
      \<and> (relay (userMailOptions env body) \<noteq> None \<longrightarrow>
          ConsoleError userSendFailedLine \<in> set (snd (submitContactForm env relay body)))
      \<and> (\<forall>e. relay (adminMailOptions env body) = Some e \<longrightarrow>
          fst (submitContactForm env relay body) = errorHandler env e 200
          \<and> fst (fst (submitContactForm env relay body)) = 500))"
proof (cases "truthy (contact_name body) \<and> truthy (contact_email body) \<and> truthy (contact_message body)")
  case False
  then have "submitContactForm env relay body
      = ((400, Failure ''Please provide name, email and message''), [])"
    by (rule submit_rejected)
  with False show ?thesis by auto
next
  case True
  show ?thesis
  proof (cases "relay (adminMailOptions env body)")
    case None
    from True None show ?thesis
      by (auto simp: submit_admin_ok userSendSteps_set split: option.splits)
  next
    case (Some e)
    from True Some show ?thesis
      using admin_not_in_userSendSteps[of env body None relay]
      by (auto simp: submit_admin_failed errorHandler_default userSendSteps_set split: option.splits)
  qed
qed

theorem contact_success_iff_admin_send_succeeds_witness:
  "truthy (contact_name sampleContact) \<and> truthy (contact_email sampleContact)
   \<and> truthy (contact_message sampleContact)
   \<and> rejectTo (contact_email sampleContact) (userMailOptions sampleEnv sampleContact) \<noteq> None
   \<and> rejectTo (contact_email sampleContact) (adminMailOptions sampleEnv sampleContact) = None
   \<and> is_success (snd (fst (submitContactForm sampleEnv (rejectTo (contact_email sampleContact)) sampleContact)))
   \<and> ConsoleError userSendFailedLine
       \<in> set (snd (submitContactForm sampleEnv (rejectTo (contact_email sampleContact)) sampleContact))
   \<and> rejectTo (ADMIN_EMAIL sampleEnv) (adminMailOptions sampleEnv sampleContact) = Some relayDown
   \<and> fst (submitContactForm sampleEnv (rejectTo (ADMIN_EMAIL sampleEnv)) sampleContact)
       = errorHandler sampleEnv relayDown 200
   \<and> fst (fst (submitContactForm sampleEnv (rejectTo (ADMIN_EMAIL sampleEnv)) sampleContact)) = 500"
proof -
  have t: "truthy (contact_name sampleContact) \<and> truthy (contact_email sampleContact)
      \<and> truthy (contact_message sampleContact)"
    by (simp add: truthy_def sampleContact_def)
  have u: "rejectTo (contact_email sampleContact) (userMailOptions sampleEnv sampleContact) \<noteq> None"
    by (simp add: rejectTo_def userMailOptions_def)
  have a: "rejectTo (contact_email sampleContact) (adminMailOptions sampleEnv sampleContact) = None"
    by (simp add: rejectTo_def adminMailOptions_def sampleEnv_def sampleContact_def)
  have d: "rejectTo (ADMIN_EMAIL sampleEnv) (adminMailOptions sampleEnv sampleContact) = Some relayDown"
    by (simp add: rejectTo_def adminMailOptions_def)
  note userFails = contact_success_iff_admin_send_succeeds
        [of sampleEnv "rejectTo (contact_email sampleContact)" sampleContact,
         THEN conjunct2, THEN mp, OF t]
  note adminFails = contact_success_iff_admin_send_succeeds
        [of sampleEnv "rejectTo (ADMIN_EMAIL sampleEnv)" sampleContact,
         THEN conjunct2, THEN mp, OF t]
  from userFails a
  have ok: "is_success (snd (fst (submitContactForm sampleEnv (rejectTo (contact_email sampleContact)) sampleContact)))"
    by blast
  from userFails u
  have logged: "ConsoleError userSendFailedLine
       \<in> set (snd (submitContactForm sampleEnv (rejectTo (contact_email sampleContact)) sampleContact))"
    by blast
  from adminFails d
  have surfaced: "fst (submitContactForm sampleEnv (rejectTo (ADMIN_EMAIL sampleEnv)) sampleContact)
       = errorHandler sampleEnv relayDown 200
     \<and> fst (fst (submitContactForm sampleEnv (rejectTo (ADMIN_EMAIL sampleEnv)) sampleContact)) = 500"
    by blast
  show ?thesis by (intro conjI t[THEN conjunct1] t[THEN conjunct2, THEN conjunct1]
      t[THEN conjunct2, THEN conjunct2] u a ok logged d surfaced[THEN conjunct1] surfaced[THEN conjunct2])
qed

text \<open>
  Claim C2, evaluated where the first connection attempt fails and the scheduled retry
  succeeds: \<open>dbStatus\<close> ends up true, and the steps contain the notice that the start is
  delayed and no bind at all.
\<close>

theorem startServer_retry_success_never_binds:
  "dbStatus (startServer True [False, True] (\<lambda>port. BindOk) 8000) = True
   \<and> events (startServer True [False, True] (\<lambda>port. BindOk) 8000)
       = [VerifyEmail True, ConnectAttempt False, RetryScheduled 5000, StartDelayed,
          ConnectAttempt True]
   \<and> (\<forall>port r. Listen port r \<notin> set (events (startServer True [False, True] (\<lambda>port. BindOk) 8000)))"
  by (simp add: startServer_def verifyEmailServer_def ConnectDB_def initialState_def)

text \<open>
  Claim C3, amended. A Create request in which any of the five fields is absent or empty
  is answered with MissingFields and the store is untouched; a request whose five fields
  are all truthy (present and not empty) with a status other than \<open>published\<close> and
  \<open>draft\<close> is answered with InvalidStatus and the store is untouched; the store's
  create operation is called exactly for the requests that pass both checks. The two
  answers differ.
\<close>

theorem createBlog_validation_order:
  "(body_title body = None \<or> body_title body = Some []
      \<or> body_description body = None \<or> body_description body = Some []
      \<or> body_category body = None \<or> body_category body = Some []
      \<or> body_status body = None \<or> body_status body = Some []
      \<or> body_imageUrl body = None \<or> body_imageUrl body = Some []
     \<longrightarrow> createBlog env newId now body st = (missingFields, st))
   \<and> (truthy (body_title body) \<and> truthy (body_description body) \<and> truthy (body_category body)
      \<and> truthy (body_status body) \<and> truthy (body_imageUrl body)
      \<and> body_status body \<noteq> Some ''published'' \<and> body_status body \<noteq> Some ''draft''
     \<longrightarrow> createBlog env newId now body st = (invalidStatus, st))
   \<and> (calls (snd (createBlog env newId now body st)) \<noteq> calls st
     \<longrightarrow> truthy (body_title body) \<and> truthy (body_description body) \<and> truthy (body_category body)
         \<and> truthy (body_imageUrl body)
         \<and> (body_status body = Some ''published'' \<or> body_status body = Some ''draft''))
   \<and> (truthy (body_title body) \<and> truthy (body_description body) \<and> truthy (body_category body)
      \<and> truthy (body_imageUrl body)
      \<and> (body_status body = Some ''published'' \<or> body_status body = Some ''draft'')
     \<longrightarrow> calls (snd (createBlog env newId now body st)) = calls st @ [CallCreate])
   \<and> missingFields \<noteq> invalidStatus"
proof -
  have absent: "body_title body = None \<or> body_title body = Some []
      \<or> body_description body = None \<or> body_description body = Some []
      \<or> body_category body = None \<or> body_category body = Some []
      \<or> body_status body = None \<or> body_status body = Some []
      \<or> body_imageUrl body = None \<or> body_imageUrl body = Some []
     \<longrightarrow> createBlog env newId now body st = (missingFields, st)"
  proof
    assume "body_title body = None \<or> body_title body = Some []
      \<or> body_description body = None \<or> body_description body = Some []
      \<or> body_category body = None \<or> body_category body = Some []
      \<or> body_status body = None \<or> body_status body = Some []
      \<or> body_imageUrl body = None \<or> body_imageUrl body = Some []"
    then have "\<not> allTruthy body" by (auto simp: allTruthy_def truthy_def)
    then show "createBlog env newId now body st = (missingFields, st)" by (rule createBlog_missing)
  qed
  have invalid: "truthy (body_title body) \<and> truthy (body_description body) \<and> truthy (body_category body)
      \<and> truthy (body_status body) \<and> truthy (body_imageUrl body)
      \<and> body_status body \<noteq> Some ''published'' \<and> body_status body \<noteq> Some ''draft''
     \<longrightarrow> createBlog env newId now body st = (invalidStatus, st)"
  proof
    assume "truthy (body_title body) \<and> truthy (body_description body) \<and> truthy (body_category body)
      \<and> truthy (body_status body) \<and> truthy (body_imageUrl body)
      \<and> body_status body \<noteq> Some ''published'' \<and> body_status body \<noteq> Some ''draft''"
    then show "createBlog env newId now body st = (invalidStatus, st)"
      by (intro createBlog_invalid) (simp_all add: allTruthy_def)
  qed
  have only: "calls (snd (createBlog env newId now body st)) \<noteq> calls st
     \<longrightarrow> truthy (body_title body) \<and> truthy (body_description body) \<and> truthy (body_category body)
         \<and> truthy (body_imageUrl body)
         \<and> (body_status body = Some ''published'' \<or> body_status body = Some ''draft'')"
  proof
    assume reached: "calls (snd (createBlog env newId now body st)) \<noteq> calls st"
    have t: "allTruthy body"
    proof (rule ccontr)
      assume "\<not> allTruthy body"
      then have "createBlog env newId now body st = (missingFields, st)" by (rule createBlog_missing)
      with reached show False by simp
    qed
    moreover have "body_status body = Some ''published'' \<or> body_status body = Some ''draft''"
    proof (rule ccontr)
      assume "\<not> ?thesis"
      with t have "createBlog env newId now body st = (invalidStatus, st)"
        by (intro createBlog_invalid) simp_all
      with reached show False by simp
    qed
    ultimately show "truthy (body_title body) \<and> truthy (body_description body) \<and> truthy (body_category body)
         \<and> truthy (body_imageUrl body)
         \<and> (body_status body = Some ''published'' \<or> body_status body = Some ''draft'')"
      by (simp add: allTruthy_def)
  qed
  have reaches: "truthy (body_title body) \<and> truthy (body_description body) \<and> truthy (body_category body)
      \<and> truthy (body_imageUrl body)
      \<and> (body_status body = Some ''published'' \<or> body_status body = Some ''draft'')
     \<longrightarrow> calls (snd (createBlog env newId now body st)) = calls st @ [CallCreate]"
  proof
    assume a: "truthy (body_title body) \<and> truthy (body_description body) \<and> truthy (body_category body)
      \<and> truthy (body_imageUrl body)
      \<and> (body_status body = Some ''published'' \<or> body_status body = Some ''draft'')"
    then have "allTruthy body" by (auto simp: allTruthy_def truthy_def)
    with a show "calls (snd (createBlog env newId now body st)) = calls st @ [CallCreate]"
      by (intro createBlog_reaches_store(1)) simp_all
  qed
  show ?thesis by (intro conjI absent invalid only reaches responses_distinct(1))
qed

theorem createBlog_validation_order_witness:
  "body_title (sampleBody\<lparr>body_title := None\<rparr>) = None
   \<and> createBlog sampleEnv sampleId 5 (sampleBody\<lparr>body_title := None\<rparr>) emptyStore
       = (missingFields, emptyStore)
   \<and> body_title (sampleBody\<lparr>body_title := Some [], body_status := Some ''archived''\<rparr>) = Some []
   \<and> createBlog sampleEnv sampleId 5
        (sampleBody\<lparr>body_title := Some [], body_status := Some ''archived''\<rparr>) emptyStore
       = (missingFields, emptyStore)
   \<and> allTruthy (sampleBody\<lparr>body_status := Some ''archived''\<rparr>)
   \<and> createBlog sampleEnv sampleId 5 (sampleBody\<lparr>body_status := Some ''archived''\<rparr>) emptyStore
       = (invalidStatus, emptyStore)
   \<and> allTruthy sampleBody \<and> body_status sampleBody = Some ''draft''
   \<and> calls (snd (createBlog sampleEnv sampleId 5 sampleBody emptyStore)) = calls emptyStore @ [CallCreate]"
proof -
  have absent: "body_title (sampleBody\<lparr>body_title := None\<rparr>) = None" by simp
  have empty: "body_title (sampleBody\<lparr>body_title := Some [], body_status := Some ''archived''\<rparr>) = Some []"
    by simp
  have bad: "allTruthy (sampleBody\<lparr>body_status := Some ''archived''\<rparr>)"
    by (simp add: allTruthy_def truthy_def sampleBody_def)
  have bad': "body_status (sampleBody\<lparr>body_status := Some ''archived''\<rparr>) \<noteq> Some ''published''
     \<and> body_status (sampleBody\<lparr>body_status := Some ''archived''\<rparr>) \<noteq> Some ''draft''"
    by simp
  have good: "allTruthy sampleBody" and good': "body_status sampleBody = Some ''draft''"
    by (simp_all add: allTruthy_def truthy_def sampleBody_def)
  have 1: "createBlog sampleEnv sampleId 5 (sampleBody\<lparr>body_title := None\<rparr>) emptyStore
       = (missingFields, emptyStore)"
    using createBlog_validation_order
      [of "sampleBody\<lparr>body_title := None\<rparr>" sampleEnv sampleId 5 emptyStore, THEN conjunct1] absent
    by blast
  have 2: "createBlog sampleEnv sampleId 5
        (sampleBody\<lparr>body_title := Some [], body_status := Some ''archived''\<rparr>) emptyStore
       = (missingFields, emptyStore)"
    using createBlog_validation_order
      [of "sampleBody\<lparr>body_title := Some [], body_status := Some ''archived''\<rparr>"
          sampleEnv sampleId 5 emptyStore, THEN conjunct1] empty
    by blast
  have 3: "createBlog sampleEnv sampleId 5 (sampleBody\<lparr>body_status := Some ''archived''\<rparr>) emptyStore
       = (invalidStatus, emptyStore)"
    using createBlog_validation_order
      [of "sampleBody\<lparr>body_status := Some ''archived''\<rparr>" sampleEnv sampleId 5 emptyStore,
       THEN conjunct2, THEN conjunct1] bad bad'
    unfolding allTruthy_def by blast
  have 4: "calls (snd (createBlog sampleEnv sampleId 5 sampleBody emptyStore)) = calls emptyStore @ [CallCreate]"
    using createBlog_validation_order
      [of sampleBody sampleEnv sampleId 5 emptyStore,
       THEN conjunct2, THEN conjunct2, THEN conjunct2, THEN conjunct1] good good'
    unfolding allTruthy_def by blast
  show ?thesis by (intro conjI absent 1 empty 2 bad 3 good good' 4)
qed

theorem createBlog_empty_status_counterexample:
  "body_title (sampleBody\<lparr>body_status := Some []\<rparr>) \<noteq> None
   \<and> body_description (sampleBody\<lparr>body_status := Some []\<rparr>) \<noteq> None
   \<and> body_category (sampleBody\<lparr>body_status := Some []\<rparr>) \<noteq> None
   \<and> body_status (sampleBody\<lparr>body_status := Some []\<rparr>) \<noteq> None
   \<and> body_imageUrl (sampleBody\<lparr>body_status := Some []\<rparr>) \<noteq> None
   \<and> body_status (sampleBody\<lparr>body_status := Some []\<rparr>) \<noteq> Some ''published''
   \<and> body_status (sampleBody\<lparr>body_status := Some []\<rparr>) \<noteq> Some ''draft''
   \<and> fst (createBlog sampleEnv sampleId 5 (sampleBody\<lparr>body_status := Some []\<rparr>) emptyStore)
       = missingFields
   \<and> fst (createBlog sampleEnv sampleId 5 (sampleBody\<lparr>body_status := Some []\<rparr>) emptyStore)
       \<noteq> invalidStatus"
  by (simp add: createBlog_def truthy_def sampleBody_def missingFields_def invalidStatus_def)

text \<open>
  Claim C4. For an identifier that the store cannot cast to an ObjectId, Get, Update and
  Delete all answer InvalidIdentifier (400). A 404 from any of them means that the
  identifier casts to an ObjectId under which no record is stored; and for such an
  identifier all three answer NotFound when the store answers the lookup.
\<close>

theorem malformed_id_is_invalid_never_notFound:
  "(castObjectId (drv st) ident = None \<longrightarrow>
      fst (getBlog env ident st) = invalidId
      \<and> fst (updateBlog env ident now body st) = invalidId
      \<and> fst (deleteBlog env ident st) = invalidId)
   \<and> (fst (fst (getBlog env ident st)) = 404 \<or> fst (fst (updateBlog env ident now body st)) = 404
        \<or> fst (fst (deleteBlog env ident st)) = 404
      \<longrightarrow> (\<exists>oid. castObjectId (drv st) ident = Some oid \<and> lookupDoc oid (docs st) = None))
   \<and> (\<forall>oid. castObjectId (drv st) ident = Some oid \<and> lookupDoc oid (docs st) = None
             \<and> failure st = None \<longrightarrow>
      fst (getBlog env ident st) = notFound
      \<and> fst (updateBlog env ident now body st) = notFound
      \<and> fst (deleteBlog env ident st) = notFound)
   \<and> fst invalidId = 400 \<and> fst notFound = 404"
proof -
  have bad: "castObjectId (drv st) ident = None \<longrightarrow>
      fst (getBlog env ident st) = invalidId
      \<and> fst (updateBlog env ident now body st) = invalidId
      \<and> fst (deleteBlog env ident st) = invalidId"
    by (simp add: getBlog_malformed updateBlog_malformed deleteBlog_malformed)
  have only: "fst (fst (getBlog env ident st)) = 404 \<or> fst (fst (updateBlog env ident now body st)) = 404
        \<or> fst (fst (deleteBlog env ident st)) = 404
      \<longrightarrow> (\<exists>oid. castObjectId (drv st) ident = Some oid \<and> lookupDoc oid (docs st) = None)"
  proof
    assume nf: "fst (fst (getBlog env ident st)) = 404 \<or> fst (fst (updateBlog env ident now body st)) = 404
        \<or> fst (fst (deleteBlog env ident st)) = 404"
    show "\<exists>oid. castObjectId (drv st) ident = Some oid \<and> lookupDoc oid (docs st) = None"
    proof (cases "castObjectId (drv st) ident")
      case None
      with nf show ?thesis
        by (simp add: getBlog_malformed updateBlog_malformed deleteBlog_malformed invalidId_def)
    next
      case (Some oid)
      show ?thesis
      proof (cases "failure st")
        case rejected: (Some e)
        from nf show ?thesis
          by (simp add: getBlog_rejected[OF Some rejected] updateBlog_rejected[OF Some rejected]
                deleteBlog_rejected[OF Some rejected] lookupFailed_not_404 updateFailed_not_404)
      next
        case None
        show ?thesis
        proof (cases "lookupDoc oid (docs st)")
          case absent: None
          with Some show ?thesis by simp
        next
          case found: (Some b)
          have "fst (fst (getBlog env ident st)) \<noteq> 404"
            by (simp add: getBlog_answered[OF Some None] found)
          moreover have "fst (fst (updateBlog env ident now body st)) \<noteq> 404"
            by (rule updateBlog_present_status[OF Some None found])
          moreover have "fst (fst (deleteBlog env ident st)) \<noteq> 404"
            by (simp add: deleteBlog_present[OF Some None found] lookupFailed_not_404
                  split: option.splits)
          ultimately show ?thesis using nf by simp
        qed
      qed
    qed
  qed
  have absent: "\<forall>oid. castObjectId (drv st) ident = Some oid \<and> lookupDoc oid (docs st) = None
             \<and> failure st = None \<longrightarrow>
      fst (getBlog env ident st) = notFound
      \<and> fst (updateBlog env ident now body st) = notFound
      \<and> fst (deleteBlog env ident st) = notFound"
    by (simp add: getBlog_answered deleteBlog_absent updateBlog_absent)
  have codes: "fst invalidId = 400 \<and> fst notFound = 404"
    by (simp add: invalidId_def notFound_def)
  show ?thesis using bad only absent codes by (intro conjI) blast+
qed

theorem malformed_id_is_invalid_never_notFound_witness:
  "castObjectId (drv sampleStore) ''not-an-id'' = None
   \<and> fst (getBlog sampleEnv ''not-an-id'' sampleStore) = invalidId
   \<and> fst (updateBlog sampleEnv ''not-an-id'' 9 (statusOnly ''published'') sampleStore) = invalidId
   \<and> fst (deleteBlog sampleEnv ''not-an-id'' sampleStore) = invalidId
   \<and> castObjectId (drv sampleStore) otherId = Some otherId
   \<and> lookupDoc otherId (docs sampleStore) = None \<and> failure sampleStore = None
   \<and> fst (getBlog sampleEnv otherId sampleStore) = notFound
   \<and> fst (updateBlog sampleEnv otherId 9 (statusOnly ''published'') sampleStore) = notFound
   \<and> fst (deleteBlog sampleEnv otherId sampleStore) = notFound
   \<and> castObjectId (drv sampleStore) upperId = Some sampleId
   \<and> fst (getBlog sampleEnv upperId sampleStore) = (200, BlogData sampleBlog)"
proof -
  note malformed = malformed_id_is_invalid_never_notFound
    [where ident = "''not-an-id''" and env = sampleEnv and st = sampleStore and now = 9
       and body = "statusOnly ''published''",
     THEN conjunct1, THEN mp, OF sample_casts(1)]
  note absent = malformed_id_is_invalid_never_notFound
    [where ident = otherId and env = sampleEnv and st = sampleStore and now = 9
       and body = "statusOnly ''published''",
     THEN conjunct2, THEN conjunct2, THEN conjunct1, THEN spec, THEN mp,
     OF conjI, OF sample_casts(2) conjI, OF sample_lookups(1) sample_answers(1)]
  have upper: "fst (getBlog sampleEnv upperId sampleStore) = (200, BlogData sampleBlog)"
    by (simp add: getBlog_answered[OF sample_casts(4) sample_answers(1)] sample_lookups(2))
  show ?thesis
    by (intro conjI sample_casts(1) sample_casts(2) sample_casts(4) sample_lookups(1)
        sample_answers(1) upper
        malformed[THEN conjunct1] malformed[THEN conjunct2, THEN conjunct1]
        malformed[THEN conjunct2, THEN conjunct2] absent[THEN conjunct1]
        absent[THEN conjunct2, THEN conjunct1] absent[THEN conjunct2, THEN conjunct2])
qed

text \<open>
  Claim C5. Delete looks the record up first: for an identifier that casts to an ObjectId
  under which no record is stored it answers NotFound, removes nothing and makes no other
  call, provided the store answers the lookup. A successful Delete answers 200 with the
  empty payload, after the lookup and the removal of the record found. Identifiers being
  unique in the store, a second Delete of the same identifier that the store answers
  gives NotFound and removes nothing more.
\<close>

theorem deleteBlog_checks_existence_first:
  "(\<forall>oid. castObjectId (drv st) ident = Some oid \<and> lookupDoc oid (docs st) = None
          \<and> failure st = None \<longrightarrow>
      fst (deleteBlog env ident st) = notFound
      \<and> docs (snd (deleteBlog env ident st)) = docs st
      \<and> calls (snd (deleteBlog env ident st)) = calls st @ [CallFindById ident])
   \<and> (is_success (snd (fst (deleteBlog env ident st))) \<longrightarrow>
      fst (deleteBlog env ident st) = (200, EmptyData)
      \<and> (\<exists>oid b. castObjectId (drv st) ident = Some oid \<and> lookupDoc oid (docs st) = Some b
            \<and> calls (snd (deleteBlog env ident st))
                = calls st @ [CallFindById ident, CallDeleteOne oid]
            \<and> docs (snd (deleteBlog env ident st)) = removeFirst oid (docs st)))
   \<and> (distinct (map blog_id (docs st)) \<and> is_success (snd (fst (deleteBlog env ident st)))
        \<and> outage st (length (calls st) + 2) = None \<longrightarrow>
      fst (deleteBlog env ident (snd (deleteBlog env ident st))) = notFound
      \<and> docs (snd (deleteBlog env ident (snd (deleteBlog env ident st))))
          = docs (snd (deleteBlog env ident st)))"
proof -
  have absent: "\<forall>oid. castObjectId (drv st) ident = Some oid \<and> lookupDoc oid (docs st) = None
          \<and> failure st = None \<longrightarrow>
      fst (deleteBlog env ident st) = notFound
      \<and> docs (snd (deleteBlog env ident st)) = docs st
      \<and> calls (snd (deleteBlog env ident st)) = calls st @ [CallFindById ident]"
    by (simp add: deleteBlog_absent)
  have success: "fst (deleteBlog env ident st) = (200, EmptyData)
      \<and> (\<exists>oid b. castObjectId (drv st) ident = Some oid \<and> lookupDoc oid (docs st) = Some b
            \<and> calls (snd (deleteBlog env ident st))
                = calls st @ [CallFindById ident, CallDeleteOne oid]
            \<and> docs (snd (deleteBlog env ident st)) = removeFirst oid (docs st))"
    if ok: "is_success (snd (fst (deleteBlog env ident st)))"
  proof (cases "castObjectId (drv st) ident")
    case None
    with ok deleteBlog_malformed[of st ident env] show ?thesis by (simp add: invalidId_def)
  next
    case (Some oid)
    show ?thesis
    proof (cases "failure st")
      case rejected: (Some e)
      with ok Some lookupFailed_not_success[of env e] show ?thesis
        by (simp add: deleteBlog_rejected)
    next
      case None
      show ?thesis
      proof (cases "lookupDoc oid (docs st)")
        case absent: None
        with ok Some None show ?thesis by (simp add: deleteBlog_absent notFound_def)
      next
        case found: (Some b)
        show ?thesis
        proof (cases "outage st (Suc (length (calls st)))")
          case later: (Some e)
          with ok lookupFailed_not_success[of env e] show ?thesis
            by (simp add: deleteBlog_present[OF Some None found])
        next
          case answered: None
          with Some found show ?thesis
            by (simp add: deleteBlog_present[OF Some None found])
        qed
      qed
    qed
  qed
  have again: "fst (deleteBlog env ident (snd (deleteBlog env ident st))) = notFound
      \<and> docs (snd (deleteBlog env ident (snd (deleteBlog env ident st))))
          = docs (snd (deleteBlog env ident st))"
    if a: "distinct (map blog_id (docs st)) \<and> is_success (snd (fst (deleteBlog env ident st)))
        \<and> outage st (length (calls st) + 2) = None"
  proof -
    from a success obtain oid b where
      cast: "castObjectId (drv st) ident = Some oid"
      and calls': "calls (snd (deleteBlog env ident st)) = calls st @ [CallFindById ident, CallDeleteOne oid]"
      and docs': "docs (snd (deleteBlog env ident st)) = removeFirst oid (docs st)"
      by blast
    let ?st = "snd (deleteBlog env ident st)"
    have cast': "castObjectId (drv ?st) ident = Some oid"
      using cast deleteBlog_keeps_environment[of env ident st] by simp
    have answered: "failure ?st = None"
      using a calls' deleteBlog_keeps_environment[of env ident st] by (simp add: failure_def)
    have gone: "lookupDoc oid (docs ?st) = None"
      using a docs' by (simp add: lookupDoc_removeFirst)
    from deleteBlog_absent[OF cast' answered gone, of env] show ?thesis by simp
  qed
  show ?thesis using absent success again by (intro conjI) blast+
qed

theorem deleteBlog_checks_existence_first_witness:
  "castObjectId (drv sampleStore) otherId = Some otherId
   \<and> lookupDoc otherId (docs sampleStore) = None \<and> failure sampleStore = None
   \<and> fst (deleteBlog sampleEnv otherId sampleStore) = notFound
   \<and> docs (snd (deleteBlog sampleEnv otherId sampleStore)) = docs sampleStore
   \<and> distinct (map blog_id (docs sampleStore))
   \<and> is_success (snd (fst (deleteBlog sampleEnv upperId sampleStore)))
   \<and> outage sampleStore (length (calls sampleStore) + 2) = None
   \<and> fst (deleteBlog sampleEnv upperId sampleStore) = (200, EmptyData)
   \<and> docs (snd (deleteBlog sampleEnv upperId sampleStore)) = []
   \<and> fst (deleteBlog sampleEnv upperId (snd (deleteBlog sampleEnv upperId sampleStore))) = notFound"
proof -
  have dist: "distinct (map blog_id (docs sampleStore))" by (simp add: sampleStore_def)
  have first: "deleteBlog sampleEnv upperId sampleStore =
      ((200, EmptyData),
       (called (CallDeleteOne sampleId) (called (CallFindById upperId) sampleStore))
         \<lparr>docs := removeFirst sampleId (docs sampleStore)\<rparr>)"
    by (simp add: deleteBlog_present[OF sample_casts(4) sample_answers(1) sample_lookups(2)]
          sample_answers(2))
  have ok: "is_success (snd (fst (deleteBlog sampleEnv upperId sampleStore)))"
    by (simp add: first)
  have "removeFirst sampleId (docs sampleStore) = []"
    by (simp add: sampleStore_def sampleBlog_def sampleId_def)
  then have removed: "docs (snd (deleteBlog sampleEnv upperId sampleStore)) = []"
    unfolding first by simp
  note absent = deleteBlog_checks_existence_first
    [where ident = otherId and env = sampleEnv and st = sampleStore,
     THEN conjunct1, THEN spec, THEN mp,
     OF conjI, OF sample_casts(2) conjI, OF sample_lookups(1) sample_answers(1)]
  note payload = deleteBlog_checks_existence_first
    [where ident = upperId and env = sampleEnv and st = sampleStore,
     THEN conjunct2, THEN conjunct1, THEN mp, OF ok, THEN conjunct1]
  note again = deleteBlog_checks_existence_first
    [where ident = upperId and env = sampleEnv and st = sampleStore,
     THEN conjunct2, THEN conjunct2, THEN mp,
     OF conjI, OF dist conjI, OF ok sample_answers(2), THEN conjunct1]
  show ?thesis
    by (intro conjI sample_casts(2) sample_lookups(1) sample_answers(1)
        absent[THEN conjunct1] absent[THEN conjunct2, THEN conjunct1]
        dist ok sample_answers(2) payload removed again)
qed




text \<open>
  Claim C8. Every bind attempt of the probe is on the start port plus the number of
  attempts before it. After an address-in-use failure on a port below 65535 the next
  step is a bind attempt on the next port; after an address-in-use failure on a port
  that is not below 65535, and after any other bind error, the only remaining step is
  the exit with code 1; after a successful bind nothing follows. The probe exits with
  no code but a non-zero one.
\<close>

theorem tryPort_probes_next_port_or_exits:
  assumes "tryPort bind port = pre @ Listen p r # rest"
  shows "r = bind p \<and> p = port + int (length pre)
    \<and> (r = EADDRINUSE \<and> p < 65535 \<longrightarrow>
         (\<exists>rest'. rest = Listen (p + 1) (bind (p + 1)) # rest'))
    \<and> (r = EADDRINUSE \<and> \<not> p < 65535 \<longrightarrow> rest = [ProcessExit 1])
    \<and> ((\<exists>code. r = BindError code) \<longrightarrow> rest = [ProcessExit 1])
    \<and> (r = BindOk \<longrightarrow> rest = [])
    \<and> (\<forall>code. ProcessExit code \<in> set (tryPort bind port) \<longrightarrow> code \<noteq> 0)"
proof -
  from tryPort_suffix[OF assms]
  have r: "r = bind p" and p: "p = port + int (length pre)"
    and suffix: "tryPort bind p = Listen p r # rest" by blast+
  have next_port: "r = EADDRINUSE \<and> p < 65535 \<longrightarrow>
         (\<exists>rest'. rest = Listen (p + 1) (bind (p + 1)) # rest')"
  proof
    assume a: "r = EADDRINUSE \<and> p < 65535"
    with r suffix have "rest = tryPort bind (p + 1)"
      by (subst (asm) tryPort.simps) simp
    with tryPort_head[of bind "p + 1"] show "\<exists>rest'. rest = Listen (p + 1) (bind (p + 1)) # rest'"
      by simp
  qed
  have exhausted: "r = EADDRINUSE \<and> \<not> p < 65535 \<longrightarrow> rest = [ProcessExit 1]"
    using r suffix by (subst (asm) tryPort.simps) auto
  have other: "(\<exists>code. r = BindError code) \<longrightarrow> rest = [ProcessExit 1]"
    using r suffix by (subst (asm) tryPort.simps) auto
  have bound: "r = BindOk \<longrightarrow> rest = []"
    using r suffix by (subst (asm) tryPort.simps) auto
  have exit_code: "\<forall>code. ProcessExit code \<in> set (tryPort bind port) \<longrightarrow> code \<noteq> 0"
  proof (induction bind port rule: tryPort.induct)
    case (1 bind port)
    show ?case
    proof (cases "bind port = EADDRINUSE \<and> port < 65535")
      case True
      with "1.IH" show ?thesis by (subst tryPort.simps) simp
    next
      case False
      then show ?thesis by (subst tryPort.simps) (auto split: bind_result.splits)
    qed
  qed
  show ?thesis by (intro conjI r p next_port exhausted other bound exit_code)
qed

theorem tryPort_probes_next_port_or_exits_witness:
  "tryPort (portsBusyBelow 8002) 8000 = [Listen 8000 EADDRINUSE] @ Listen 8001 EADDRINUSE # [Listen 8002 BindOk]
   \<and> 8001 = 8000 + int (length [Listen 8000 EADDRINUSE])
   \<and> (\<exists>rest'. [Listen 8002 BindOk] = Listen (8001 + 1) (portsBusyBelow 8002 (8001 + 1)) # rest')
   \<and> tryPort (\<lambda>port. EADDRINUSE) 65534 = [Listen 65534 EADDRINUSE] @ Listen 65535 EADDRINUSE # [ProcessExit 1]
   \<and> tryPort (\<lambda>port. BindError ''EACCES'') 80 = [] @ Listen 80 (BindError ''EACCES'') # [ProcessExit 1]"
proof -
  have run: "tryPort (portsBusyBelow 8002) 8000
      = [Listen 8000 EADDRINUSE] @ Listen 8001 EADDRINUSE # [Listen 8002 BindOk]"
    by (simp add: tryPort.simps portsBusyBelow_def)
  have full: "tryPort (\<lambda>port. EADDRINUSE) 65534
      = [Listen 65534 EADDRINUSE] @ Listen 65535 EADDRINUSE # [ProcessExit 1]"
    by (simp add: tryPort.simps)
  have other: "tryPort (\<lambda>port. BindError ''EACCES'') 80
      = [] @ Listen 80 (BindError ''EACCES'') # [ProcessExit 1]"
    by (simp add: tryPort.simps)
  note step = tryPort_probes_next_port_or_exits [OF run]
  have pos: "8001 = 8000 + int (length [Listen 8000 EADDRINUSE])"
    using step by blast
  have nxt: "\<exists>rest'. [Listen 8002 BindOk] = Listen (8001 + 1) (portsBusyBelow 8002 (8001 + 1)) # rest'"
    using step by simp
  show ?thesis by (intro conjI run pos nxt full other)
qed

text \<open>
  Claim C9. A Create request with an empty string in any of the five fields, and more
  generally with any falsy field, is answered with MissingFields and the store is
  untouched; an InvalidStatus answer implies a status that is a non-empty string other
  than \<open>published\<close> and \<open>draft\<close>. The two answers differ.
\<close>

theorem createBlog_falsy_is_missing:
  "(body_title body = Some [] \<or> body_description body = Some [] \<or> body_category body = Some []
      \<or> body_status body = Some [] \<or> body_imageUrl body = Some []
     \<longrightarrow> createBlog env newId now body st = (missingFields, st))
   \<and> (\<not> truthy (body_title body) \<or> \<not> truthy (body_description body) \<or> \<not> truthy (body_category body)
      \<or> \<not> truthy (body_status body) \<or> \<not> truthy (body_imageUrl body)
     \<longrightarrow> createBlog env newId now body st = (missingFields, st))
   \<and> (fst (createBlog env newId now body st) = invalidStatus
     \<longrightarrow> (\<exists>s. body_status body = Some s \<and> s \<noteq> [] \<and> s \<noteq> ''published'' \<and> s \<noteq> ''draft''))
   \<and> missingFields \<noteq> invalidStatus"
proof -
  have empty: "body_title body = Some [] \<or> body_description body = Some [] \<or> body_category body = Some []
      \<or> body_status body = Some [] \<or> body_imageUrl body = Some []
     \<longrightarrow> createBlog env newId now body st = (missingFields, st)"
  proof
    assume "body_title body = Some [] \<or> body_description body = Some [] \<or> body_category body = Some []
      \<or> body_status body = Some [] \<or> body_imageUrl body = Some []"
    then have "\<not> allTruthy body" by (auto simp: allTruthy_def truthy_def)
    then show "createBlog env newId now body st = (missingFields, st)" by (rule createBlog_missing)
  qed
  have falsy: "\<not> truthy (body_title body) \<or> \<not> truthy (body_description body) \<or> \<not> truthy (body_category body)
      \<or> \<not> truthy (body_status body) \<or> \<not> truthy (body_imageUrl body)
     \<longrightarrow> createBlog env newId now body st = (missingFields, st)"
  proof
    assume "\<not> truthy (body_title body) \<or> \<not> truthy (body_description body) \<or> \<not> truthy (body_category body)
      \<or> \<not> truthy (body_status body) \<or> \<not> truthy (body_imageUrl body)"
    then have "\<not> allTruthy body" by (auto simp: allTruthy_def)
    then show "createBlog env newId now body st = (missingFields, st)" by (rule createBlog_missing)
  qed
  have reach: "fst (createBlog env newId now body st) = invalidStatus
     \<longrightarrow> (\<exists>s. body_status body = Some s \<and> s \<noteq> [] \<and> s \<noteq> ''published'' \<and> s \<noteq> ''draft'')"
  proof
    assume "fst (createBlog env newId now body st) = invalidStatus"
    from createBlog_invalidStatus_only[OF this]
    show "\<exists>s. body_status body = Some s \<and> s \<noteq> [] \<and> s \<noteq> ''published'' \<and> s \<noteq> ''draft''"
      by (auto simp: allTruthy_def truthy_def split: option.splits)
  qed
  show ?thesis by (intro conjI empty falsy reach responses_distinct(1))
qed

theorem createBlog_falsy_is_missing_witness:
  "body_status (sampleBody\<lparr>body_status := Some []\<rparr>) = Some []
   \<and> createBlog sampleEnv sampleId 5 (sampleBody\<lparr>body_status := Some []\<rparr>) emptyStore
       = (missingFields, emptyStore)
   \<and> fst (createBlog sampleEnv sampleId 5 (sampleBody\<lparr>body_status := Some ''archived''\<rparr>) emptyStore)
       = invalidStatus
   \<and> (\<exists>s. body_status (sampleBody\<lparr>body_status := Some ''archived''\<rparr>) = Some s \<and> s \<noteq> []
        \<and> s \<noteq> ''published'' \<and> s \<noteq> ''draft'')"
proof -
  have empty: "body_status (sampleBody\<lparr>body_status := Some []\<rparr>) = Some []" by simp
  have 1: "createBlog sampleEnv sampleId 5 (sampleBody\<lparr>body_status := Some []\<rparr>) emptyStore
       = (missingFields, emptyStore)"
    using createBlog_falsy_is_missing
      [of "sampleBody\<lparr>body_status := Some []\<rparr>" sampleEnv sampleId 5 emptyStore, THEN conjunct1] empty
    by blast
  have inv: "fst (createBlog sampleEnv sampleId 5 (sampleBody\<lparr>body_status := Some ''archived''\<rparr>) emptyStore)
       = invalidStatus"
    by (simp add: createBlog_def truthy_def sampleBody_def)
  have 2: "\<exists>s. body_status (sampleBody\<lparr>body_status := Some ''archived''\<rparr>) = Some s \<and> s \<noteq> []
        \<and> s \<noteq> ''published'' \<and> s \<noteq> ''draft''"
    using createBlog_falsy_is_missing
      [of "sampleBody\<lparr>body_status := Some ''archived''\<rparr>" sampleEnv sampleId 5 emptyStore,
       THEN conjunct2, THEN conjunct2, THEN conjunct1] inv
    by blast
  show ?thesis by (intro conjI empty 1 inv 2)
qed

text \<open>
  Claim C10. An Update of an existing record, found by the lookup, with a status other
  than \<open>published\<close> and \<open>draft\<close> is answered with 400 and a list of validator
  messages that holds the enumeration message for that status; the answer is not
  InvalidStatus, and the documents are left as they are.
\<close>

theorem updateBlog_bad_status_is_validation_failure:
  assumes "castObjectId (drv st) ident = Some oid" and "lookupDoc oid (docs st) = Some b"
    and "failure st = None"
    and "body_status body = Some s" and "s \<noteq> ''published''" and "s \<noteq> ''draft''"
  shows "fst (fst (updateBlog env ident now body st)) = 400
    \<and> (\<exists>ms. snd (fst (updateBlog env ident now body st)) = FailureList ms
           \<and> enumMessage s \<in> set ms)
    \<and> fst (updateBlog env ident now body st) \<noteq> invalidStatus
    \<and> docs (snd (updateBlog env ident now body st)) = docs st"
proof -
  have msg: "enumMessage s \<in> set (validateUpdate (drv st) body)"
    using assms(4-6) by (rule enum_message_reported)
  then have ne: "validateUpdate (drv st) body \<noteq> []" by auto
  with assms(1-3) have "updateBlog env ident now body st =
      ((400, FailureList (validateUpdate (drv st) body)),
            called (CallFindByIdAndUpdate ident) (called (CallFindById ident) st))"
    by (simp add: updateBlog_present)
  with msg show ?thesis by (simp add: invalidStatus_def)
qed

theorem updateBlog_bad_status_is_validation_failure_witness:
  "castObjectId (drv sampleStore) upperId = Some sampleId
   \<and> lookupDoc sampleId (docs sampleStore) = Some sampleBlog \<and> failure sampleStore = None
   \<and> body_status (statusOnly ''archived'') = Some ''archived''
   \<and> fst (fst (updateBlog sampleEnv upperId 9 (statusOnly ''archived'') sampleStore)) = 400
   \<and> (\<exists>ms. snd (fst (updateBlog sampleEnv upperId 9 (statusOnly ''archived'') sampleStore))
              = FailureList ms \<and> enumMessage ''archived'' \<in> set ms)
   \<and> docs (snd (updateBlog sampleEnv upperId 9 (statusOnly ''archived'') sampleStore))
       = docs sampleStore"
proof -
  have st: "body_status (statusOnly ''archived'') = Some ''archived''"
    by (simp add: statusOnly_def)
  note applied = updateBlog_bad_status_is_validation_failure
    [where s = "''archived''" and env = sampleEnv and now = 9,
     OF sample_casts(4) sample_lookups(2) sample_answers(1) st]
  have r: "fst (fst (updateBlog sampleEnv upperId 9 (statusOnly ''archived'') sampleStore)) = 400
    \<and> (\<exists>ms. snd (fst (updateBlog sampleEnv upperId 9 (statusOnly ''archived'') sampleStore))
              = FailureList ms \<and> enumMessage ''archived'' \<in> set ms)
    \<and> fst (updateBlog sampleEnv upperId 9 (statusOnly ''archived'') sampleStore) \<noteq> invalidStatus
    \<and> docs (snd (updateBlog sampleEnv upperId 9 (statusOnly ''archived'') sampleStore))
       = docs sampleStore"
    by (rule applied) simp_all
  show ?thesis
    by (intro conjI sample_casts(4) sample_lookups(2) sample_answers(1) st
        r[THEN conjunct1] r[THEN conjunct2, THEN conjunct1]
        r[THEN conjunct2, THEN conjunct2, THEN conjunct2])
qed

end
